theory Spec2Isabelle
  imports Complex_Main "HOL-Library.AList"
begin

section \<open>Nuki Hub MQTT configuration client\<close>

text \<open>
  A shallow embedding of \<^verbatim>\<open>src/python/hph/nuki_mqtt_config.py\<close>: the class
  \<^verbatim>\<open>NukiConfigClient\<close> (message handler, \<^verbatim>\<open>update_config\<close>, \<^verbatim>\<open>wait_for_ip\<close>), the function
  \<^verbatim>\<open>fetch_coredump\<close> and the settings loop of \<^verbatim>\<open>main\<close>.
\<close>

subsection \<open>Python values\<close>

text \<open>
  The objects that the program stores in \<^verbatim>\<open>self.response\<close> and in \<^verbatim>\<open>config_data\<close>:
  \<^verbatim>\<open>None\<close>, booleans, unbounded integers, strings, and the lists and dictionaries that
  \<^verbatim>\<open>json.loads\<close> builds. A dictionary is an association list in insertion order. No
  operation of the program computes with a float, so a float is carried as the text of
  its literal.
\<close>

datatype pyobj =
    PyNone
  | PyBool bool
  | PyInt int
  | PyFloat string
  | PyStr string
  | PyList "pyobj list"
  | PyDict "(string \<times> pyobj) list"

datatype py_error = ValueError string

subsection \<open>Module constants\<close>

definition BASE_TOPIC :: string where
  "BASE_TOPIC = ''nuki/hub''"

definition TOPIC_ACTION_SUFFIX :: string where
  "TOPIC_ACTION_SUFFIX = ''/configuration/action''"

definition TOPIC_RESULT_SUFFIX :: string where
  "TOPIC_RESULT_SUFFIX = ''/configuration/commandResult''"

definition LOCK_CONFIG_KEYS_basic :: "string list" where
  "LOCK_CONFIG_KEYS_basic =
    [''name'', ''latitude'', ''longitude'', ''autoUnlatch'', ''pairingEnabled'',
     ''buttonEnabled'', ''ledEnabled'', ''ledBrightness'', ''timeZoneOffset'',
     ''dstMode'', ''fobAction1'', ''fobAction2'', ''fobAction3'', ''singleLock'',
     ''advertisingMode'', ''timeZone'']"

definition LOCK_CONFIG_KEYS_advanced :: "string list" where
  "LOCK_CONFIG_KEYS_advanced =
    [''unlockedPositionOffsetDegrees'', ''lockedPositionOffsetDegrees'',
     ''singleLockedPositionOffsetDegrees'', ''unlockedToLockedTransitionOffsetDegrees'',
     ''lockNgoTimeout'', ''singleButtonPressAction'', ''doubleButtonPressAction'',
     ''detachedCylinder'', ''batteryType'', ''automaticBatteryTypeDetection'',
     ''unlatchDuration'', ''autoLockTimeOut'', ''autoUnLockDisabled'',
     ''nightModeEnabled'', ''nightModeStartTime'', ''nightModeEndTime'',
     ''nightModeAutoLockEnabled'', ''nightModeAutoUnlockDisabled'',
     ''nightModeImmediateLockOnStart'', ''autoLockEnabled'',
     ''immediateAutoLockEnabled'', ''autoUpdateEnabled'', ''rebootNuki'',
     ''motorSpeed'', ''enableSlowSpeedDuringNightMode'', ''recalibrateNuki'']"

definition OPENER_CONFIG_KEYS_basic :: "string list" where
  "OPENER_CONFIG_KEYS_basic =
    [''name'', ''latitude'', ''longitude'', ''pairingEnabled'', ''buttonEnabled'',
     ''ledFlashEnabled'', ''timeZoneOffset'', ''dstMode'', ''fobAction1'',
     ''fobAction2'', ''fobAction3'', ''operatingMode'', ''advertisingMode'', ''timeZone'']"

definition OPENER_CONFIG_KEYS_advanced :: "string list" where
  "OPENER_CONFIG_KEYS_advanced =
    [''intercomID'', ''busModeSwitch'', ''shortCircuitDuration'',
     ''electricStrikeDelay'', ''randomElectricStrikeDelay'',
     ''electricStrikeDuration'', ''disableRtoAfterRing'', ''rtoTimeout'',
     ''doorbellSuppression'', ''doorbellSuppressionDuration'', ''soundRing'',
     ''soundOpen'', ''soundRto'', ''soundCm'', ''soundConfirmation'', ''soundLevel'',
     ''singleButtonPressAction'', ''doubleButtonPressAction'', ''batteryType'',
     ''automaticBatteryTypeDetection'', ''rebootNuki'', ''recalibrateNuki'']"

definition HUB_CONFIG_KEYS :: "string list" where
  "HUB_CONFIG_KEYS =
    [''dhcpena'', ''ipaddr'', ''ipsub'', ''ipgtw'', ''dnssrv'', ''hostname'', ''wifiSSID'', ''wifiPass'',
     ''mqttlog'', ''mqtt_lock_path'',
     ''authmaxentry'', ''authInfoEna'', ''authPerEntry'', ''cred_user'', ''cred_password'',
     ''kpmaxentry'', ''kpInfoEnabled'', ''kpPerEntry'', ''kpPubCode'',
     ''tcmaxentry'', ''tcPerEntry'', ''tcInfoEnabled'',
     ''pubAuth'', ''cnfInfoEnabled'',
     ''lockStInterval'', ''configInterval'', ''batInterval'', ''kpInterval'',
     ''nrRetry'', ''rtryDelay'', ''hybridTimer'', ''rssipb'', ''nettmout'',
     ''regAsApp'', ''regOpnAsApp'', ''bleTxPwr'', ''checkupdates'', ''openercont'',
     ''webserver_enabled'']"

subsection \<open>The client object and the bus\<close>

text \<open>
  A message as the handler sees it: the topic and the payload already decoded as UTF-8
  text.
\<close>

record bus_message =
  topic :: string
  payload :: string

text \<open>
  The paho client \<^verbatim>\<open>self.client\<close> is library code. It is modelled by the log of the calls
  the program makes to it, in order; the calls themselves are taken not to raise.
\<close>

datatype bus_call =
    Subscribe string
  | Publish string string
  | Unsubscribe string

record client =
  base_topic :: string
  response :: pyobj
  waiting_for_topic :: "string option"
  ip_address :: "string option"
  calls :: "bus_call list"

text \<open>
  \<^verbatim>\<open>__init__\<close>: the three slots start as \<^verbatim>\<open>None\<close>. Broker, port and credentials only
  reach \<^verbatim>\<open>connect\<close> and are left out.
\<close>

definition NukiConfigClient :: "string \<Rightarrow> client" where
  "NukiConfigClient base =
     \<lparr>base_topic = base, response = PyNone, waiting_for_topic = None,
      ip_address = None, calls = []\<rparr>"

text \<open>\<^verbatim>\<open>str.endswith\<close>.\<close>

definition endswith :: "string \<Rightarrow> string \<Rightarrow> bool" where
  "endswith s suf \<longleftrightarrow>
     length suf \<le> length s \<and> drop (length s - length suf) s = suf"

text \<open>
  Truth value of \<^verbatim>\<open>self.waiting_for_topic\<close>, which holds \<^verbatim>\<open>None\<close> or a string: false for
  \<^verbatim>\<open>None\<close> and for the empty string.
\<close>

definition truthy :: "string option \<Rightarrow> bool" where
  "truthy w = (case w of None \<Rightarrow> False | Some t \<Rightarrow> t \<noteq> [])"

text \<open>
  \<^verbatim>\<open>on_message\<close>. The parameter \<open>loads\<close> stands for \<^verbatim>\<open>json.loads\<close>, which is library code:
  \<open>None\<close> is \<^verbatim>\<open>json.JSONDecodeError\<close>, and the JSON text \<^verbatim>\<open>null\<close> parses to \<open>Some PyNone\<close>.
  The two \<^verbatim>\<open>print\<close> calls at the end change no state and are left out.
\<close>

definition on_message :: "(string \<Rightarrow> pyobj option) \<Rightarrow> bus_message \<Rightarrow> client \<Rightarrow> client" where
  "on_message loads msg c =
     (if endswith (topic msg) ''/info/nukiHubIp'' then
        c\<lparr>ip_address := Some (payload msg)\<rparr>
      else if truthy (waiting_for_topic c) \<and> Some (topic msg) = waiting_for_topic c then
        (if payload msg = ''--'' then c
         else
           c\<lparr>response :=
               (case loads (payload msg) of
                  Some v \<Rightarrow> v
                | None \<Rightarrow> PyStr (payload msg))\<rparr>)
      else c)"

text \<open>The delivery thread handles messages one at a time, in arrival order.\<close>

fun deliver :: "(string \<Rightarrow> pyobj option) \<Rightarrow> bus_message list \<Rightarrow> client \<Rightarrow> client" where
  "deliver loads [] c = c"
| "deliver loads (m # ms) c = deliver loads ms (on_message loads m c)"

subsection \<open>Time and the polling loops\<close>

text \<open>
  Both waiting loops read \<^verbatim>\<open>time.time()\<close> once per iteration and then sleep for a tenth
  of a second, while the delivery thread of the transport calls the handler. The
  environment of a call is the list of these clock readings, in seconds as \<open>timeout\<close> is,
  each with the messages that the delivery thread handles while the caller sleeps after
  that reading. The first element belongs to the reading stored in \<^verbatim>\<open>start_time\<close>; its
  messages are those handled before the loop first tests its slot. Where a loop ends at
  a reading because the deadline has passed, no sleep follows and the messages of that
  element are not handled within the call. A loop that is still polling when the list
  ends has not returned: the result is \<open>None\<close>.
\<close>

record poll =
  clock :: real
  delivered :: "bus_message list"

text \<open>
  The loop of \<^verbatim>\<open>update_config\<close>: it stops when the slot is not \<^verbatim>\<open>None\<close>, or by
  \<^verbatim>\<open>break\<close> when the clock has passed the deadline.
\<close>

fun await_response ::
  "(string \<Rightarrow> pyobj option) \<Rightarrow> real \<Rightarrow> real \<Rightarrow> poll list \<Rightarrow> client \<Rightarrow> client option" where
  "await_response loads start_time timeout [] c =
     (if response c \<noteq> PyNone then Some c else None)"
| "await_response loads start_time timeout (p # ps) c =
     (if response c \<noteq> PyNone then Some c
      else if clock p - start_time > timeout then Some c
      else await_response loads start_time timeout ps (deliver loads (delivered p) c))"

text \<open>
  \<^verbatim>\<open>update_config\<close>. The parameter \<open>dumps\<close> stands for \<^verbatim>\<open>json.dumps\<close>. The result is
  \<open>None\<close> when the call has not returned within the environment given, \<open>Inl\<close> with
  the exception raised and the state at that moment, or \<open>Inr\<close> with the value
  returned and the final state.
\<close>

definition update_config ::
  "(string \<Rightarrow> pyobj option) \<Rightarrow> (pyobj \<Rightarrow> string) \<Rightarrow> string \<Rightarrow> (string \<times> pyobj) list \<Rightarrow> real \<Rightarrow>
   poll list \<Rightarrow> client \<Rightarrow> ((py_error \<times> client) + (pyobj \<times> client)) option" where
  "update_config loads dumps target config_dict timeout env c =
     (case (if target = ''hub'' then Some (base_topic c)
            else if target = ''lock'' then Some (base_topic c @ ''/lock'')
            else if target = ''opener'' then Some (base_topic c @ ''/opener'')
            else None) of
        None \<Rightarrow> Some (Inl (ValueError (''Target must be 'hub', 'lock', or 'opener'' @ [CHR 0x27]), c))
      | Some topic_base \<Rightarrow>
          (let action_topic = topic_base @ TOPIC_ACTION_SUFFIX;
               result_topic = topic_base @ TOPIC_RESULT_SUFFIX;
               c1 = c\<lparr>waiting_for_topic := Some result_topic, response := PyNone\<rparr>;
               c2 = c1\<lparr>calls := calls c1 @ [Subscribe result_topic]\<rparr>;
               payload = dumps (PyDict config_dict);
               c3 = c2\<lparr>calls := calls c2 @ [Publish action_topic payload]\<rparr>
           in case env of
                [] \<Rightarrow> None
              | p0 # ps \<Rightarrow>
                  (case await_response loads (clock p0) timeout ps
                          (deliver loads (delivered p0) c3) of
                     None \<Rightarrow> None
                   | Some c4 \<Rightarrow>
                       (let c5 = c4\<lparr>calls := calls c4 @ [Unsubscribe result_topic]\<rparr>
                        in Some (Inr (response c5, c5))))))"

text \<open>
  The loop of \<^verbatim>\<open>wait_for_ip\<close>: \<open>Inr\<close> when the loop condition ends it, \<open>Inl\<close> when the
  deadline check executes \<^verbatim>\<open>return None\<close> from inside the loop.
\<close>

fun await_ip ::
  "(string \<Rightarrow> pyobj option) \<Rightarrow> real \<Rightarrow> real \<Rightarrow> poll list \<Rightarrow> client \<Rightarrow> (client + client) option" where
  "await_ip loads start_time timeout [] c =
     (if ip_address c \<noteq> None then Some (Inr c) else None)"
| "await_ip loads start_time timeout (p # ps) c =
     (if ip_address c \<noteq> None then Some (Inr c)
      else if clock p - start_time > timeout then Some (Inl c)
      else await_ip loads start_time timeout ps (deliver loads (delivered p) c))"

definition wait_for_ip ::
  "(string \<Rightarrow> pyobj option) \<Rightarrow> real \<Rightarrow> poll list \<Rightarrow> client \<Rightarrow> (string option \<times> client) option" where
  "wait_for_ip loads timeout env c =
     (let ip_topic = base_topic c @ ''/info/nukiHubIp'';
          c1 = c\<lparr>calls := calls c @ [Subscribe ip_topic]\<rparr>
      in case env of
           [] \<Rightarrow> None
         | p0 # ps \<Rightarrow>
             (case await_ip loads (clock p0) timeout ps (deliver loads (delivered p0) c1) of
                None \<Rightarrow> None
              | Some (Inl c2) \<Rightarrow> Some (None, c2)
              | Some (Inr c2) \<Rightarrow>
                  (let c3 = c2\<lparr>calls := calls c2 @ [Unsubscribe ip_topic]\<rparr>
                   in Some (ip_address c3, c3))))"

subsection \<open>The settings loop of main\<close>

text \<open>
  The built-in \<^verbatim>\<open>int\<close> applied to a string, for ASCII text, as CPython's
  \<^verbatim>\<open>PyLong_FromString\<close> reads base 10: white space on either side is skipped, one sign
  may lead, and the digits may be grouped by single underscores. White space is one of
  the six characters tab, line feed, vertical tab, form feed, carriage return, space.
\<close>

definition py_isspace :: "char \<Rightarrow> bool" where
  "py_isspace c \<longleftrightarrow> c \<in> set [CHR 0x09, CHR 0x0A, CHR 0x0B, CHR 0x0C, CHR 0x0D, CHR '' '']"

definition py_isdigit :: "char \<Rightarrow> bool" where
  "py_isdigit c \<longleftrightarrow> c \<in> set ''0123456789''"

definition digit_value :: "char \<Rightarrow> int" where
  "digit_value c = int (of_char c) - 48"

definition decimal :: "string \<Rightarrow> int" where
  "decimal ds = foldl (\<lambda>a c. 10 * a + digit_value c) 0 ds"

fun double_underscore :: "string \<Rightarrow> bool" where
  "double_underscore (a # b # r) \<longleftrightarrow>
     (a = CHR ''_'' \<and> b = CHR ''_'') \<or> double_underscore (b # r)"
| "double_underscore r \<longleftrightarrow> False"

text \<open>
  The first parameter is the interpreter's limit on the number of digits
  (\<^verbatim>\<open>sys.get_int_max_str_digits()\<close>, 4300 unless configured; 0 switches the limit off, and
  an interpreter without the limit behaves as with 0). The result \<open>None\<close> is
  \<^verbatim>\<open>ValueError\<close>.
\<close>

definition py_int :: "nat \<Rightarrow> string \<Rightarrow> int option" where
  "py_int max_str_digits s =
     (let s1 = dropWhile py_isspace s;
          neg = (s1 \<noteq> [] \<and> hd s1 = CHR ''-'');
          s2 = (if s1 \<noteq> [] \<and> (hd s1 = CHR ''+'' \<or> hd s1 = CHR ''-'') then tl s1 else s1);
          body = takeWhile (\<lambda>c. py_isdigit c \<or> c = CHR ''_'') s2;
          rest = dropWhile (\<lambda>c. py_isdigit c \<or> c = CHR ''_'') s2;
          ds = filter py_isdigit body
      in if body = [] \<or> hd body = CHR ''_'' \<or> last body = CHR ''_'' \<or> double_underscore body
            \<or> (0 < max_str_digits \<and> max_str_digits < length ds)
            \<or> \<not> list_all py_isspace rest
         then None
         else Some (if neg then - decimal ds else decimal ds))"

text \<open>\<^verbatim>\<open>str.lower\<close> on ASCII text.\<close>

definition lower_char :: "char \<Rightarrow> char" where
  "lower_char c =
     (if 65 \<le> (of_char c :: nat) \<and> (of_char c :: nat) \<le> 90
      then char_of (of_char c + 32 :: nat) else c)"

definition lower :: "string \<Rightarrow> string" where
  "lower s = map lower_char s"

text \<open>
  Lines 297 to 306 of \<^verbatim>\<open>main\<close>: the value stored for a setting. \<^verbatim>\<open>int(value)\<close> is tried
  first; on \<^verbatim>\<open>ValueError\<close> the lower-cased text is compared with \<^verbatim>\<open>true\<close> and \<^verbatim>\<open>false\<close>;
  otherwise the text itself is stored.
\<close>

definition coerce_value :: "nat \<Rightarrow> string \<Rightarrow> pyobj" where
  "coerce_value max_str_digits v =
     (case py_int max_str_digits v of
        Some n \<Rightarrow> PyInt n
      | None \<Rightarrow>
          if lower v = ''true'' then PyBool True
          else if lower v = ''false'' then PyBool False
          else PyStr v)"

text \<open>Lines 278 to 284: the keys known for the target.\<close>

definition valid_keys :: "string \<Rightarrow> string list" where
  "valid_keys target =
     (if target = ''lock'' then LOCK_CONFIG_KEYS_basic @ LOCK_CONFIG_KEYS_advanced
      else if target = ''opener'' then OPENER_CONFIG_KEYS_basic @ OPENER_CONFIG_KEYS_advanced
      else if target = ''hub'' then HUB_CONFIG_KEYS
      else [])"

text \<open>The two lines the loop can print; \<open>CHR 0x27\<close> is the single quote.\<close>

definition key_warning :: "string \<Rightarrow> string \<Rightarrow> string" where
  "key_warning key target =
     ''Warning: '' @ [CHR 0x27] @ key @ [CHR 0x27] @ '' might not be a valid setting for '' @ target"

definition ignored_line :: "string \<Rightarrow> string" where
  "ignored_line setting =
     ''Ignored invalid setting '' @ [CHR 0x27] @ setting @ [CHR 0x27] @ ''. Must be key=value''"

text \<open>
  One iteration of the loop over \<^verbatim>\<open>args.settings\<close> (lines 288 to 308), on the pair of
  \<^verbatim>\<open>config_data\<close> and the lines printed so far. \<^verbatim>\<open>setting.split("=", 1)\<close> cuts at the first
  equals sign. Assigning to a key of a Python dictionary keeps the position of a key
  already present and appends a new one, which is what \<^const>\<open>AList.update\<close> does.
\<close>

definition parse_setting ::
  "nat \<Rightarrow> string \<Rightarrow> string \<Rightarrow> (string \<times> pyobj) list \<times> string list \<Rightarrow>
   (string \<times> pyobj) list \<times> string list" where
  "parse_setting max_str_digits target setting st =
     (let config_data = fst st; out = snd st in
      if CHR ''='' \<in> set setting then
        (let key = takeWhile (\<lambda>ch. ch \<noteq> CHR ''='') setting;
             val = tl (dropWhile (\<lambda>ch. ch \<noteq> CHR ''='') setting);
             out1 = (if target \<noteq> ''hub'' \<and> key \<notin> set (valid_keys target)
                     then out @ [key_warning key target]
                     else out)
         in (AList.update key (coerce_value max_str_digits val) config_data, out1))
      else (config_data, out @ [ignored_line setting]))"

fun parse_settings ::
  "nat \<Rightarrow> string \<Rightarrow> string list \<Rightarrow> (string \<times> pyobj) list \<times> string list \<Rightarrow>
   (string \<times> pyobj) list \<times> string list" where
  "parse_settings max_str_digits target [] st = st"
| "parse_settings max_str_digits target (setting # settings) st =
     parse_settings max_str_digits target settings
       (parse_setting max_str_digits target setting st)"

subsection \<open>Fetching the coredump\<close>

text \<open>
  What the block under \<^verbatim>\<open>try\<close> meets when it opens the URL and reads the body: the body
  of a successful response, an \<^verbatim>\<open>HTTPError\<close> with its code and reason, or any other
  exception with its text.
\<close>

datatype http_result =
    Body string
  | HTTPError int string
  | OtherError string

text \<open>\<^verbatim>\<open>str\<close> of an integer, as an f-string formats \<^verbatim>\<open>e.code\<close>.\<close>

fun str_nat :: "nat \<Rightarrow> string" where
  "str_nat n =
     (if n < 10 then [char_of (48 + n)]
      else str_nat (n div 10) @ [char_of (48 + n mod 10)])"

declare str_nat.simps [simp del]

definition str_int :: "int \<Rightarrow> string" where
  "str_int i = (if i < 0 then CHR ''-'' # str_nat (nat (- i)) else str_nat (nat i))"

text \<open>
  \<^verbatim>\<open>fetch_coredump\<close>. The function returns nothing; what it does is print and write the
  file. The result is the lines it prints itself, the file written (name and bytes) if
  any, and the client. \<open>http_get\<close> stands for \<^verbatim>\<open>urllib.request.urlopen\<close> followed by
  \<^verbatim>\<open>read\<close>, given the URL and the credentials installed in the opener, if any;
  \<open>write_file\<close> stands for opening the output file and writing to it, with \<open>Some\<close> the
  text of the exception when that fails.
\<close>

definition fetch_coredump ::
  "(string \<Rightarrow> pyobj option) \<Rightarrow> (string \<Rightarrow> (string \<times> string) option \<Rightarrow> http_result) \<Rightarrow>
   (string \<Rightarrow> string \<Rightarrow> string option) \<Rightarrow> poll list \<Rightarrow>
   client \<Rightarrow> string option \<Rightarrow> string option \<Rightarrow> string \<Rightarrow>
   (string list \<times> (string \<times> string) option \<times> client) option" where
  "fetch_coredump loads http_get write_file env c web_user web_password output_file =
     (case wait_for_ip loads 10 env c of
        None \<Rightarrow> None
      | Some (ip, c1) \<Rightarrow>
          (let out0 = [''Waiting for Nuki Hub IP address...''] in
           if \<not> truthy ip then
             Some (out0 @ [''Timeout waiting for IP address. Ensure Nuki Hub is online and MQTT is connected.''],
                   None, c1)
           else
             (let out1 = out0 @ [''Nuki Hub IP: '' @ the ip];
                  url = ''http://'' @ the ip @ ''/get?page=coredump'';
                  auth = (if truthy web_user \<and> truthy web_password
                          then Some (the web_user, the web_password) else None);
                  out2 = out1 @ [''Downloading coredump from '' @ url @ ''...'']
              in case http_get url auth of
                   Body data \<Rightarrow>
                     (case write_file output_file data of
                        None \<Rightarrow>
                          Some (out2 @ [''Coredump saved to '' @ output_file],
                                Some (output_file, data), c1)
                      | Some e \<Rightarrow> Some (out2 @ [''Error fetching coredump: '' @ e], None, c1))
                 | HTTPError code reason \<Rightarrow>
                     (if code = 404 then
                        Some (out2 @ [''Coredump not found on device.''], None, c1)
                      else if code = 401 then
                        Some (out2 @ [''Authentication failed. Please check --web-user and --web-password.''],
                              None, c1)
                      else
                        Some (out2 @ [''HTTP Error: '' @ str_int code @ '' '' @ reason], None, c1))
                 | OtherError e \<Rightarrow>
                     Some (out2 @ [''Error fetching coredump: '' @ e], None, c1))))"

subsection \<open>Names used in the statements\<close>

text \<open>
  The topic base that \<^verbatim>\<open>update_config\<close> computes for one of its three targets: the base
  topic itself for the hub, the base topic followed by a slash and the target for the
  lock and the opener.
\<close>

definition topic_base :: "string \<Rightarrow> string \<Rightarrow> string" where
  "topic_base base target = (if target = ''hub'' then base else base @ ''/'' @ target)"

text \<open>
  A message that the handler takes for an address announcement: one whose topic ends in
  \<^verbatim>\<open>/info/nukiHubIp\<close>.
\<close>

definition is_announcement :: "bus_message \<Rightarrow> bool" where
  "is_announcement m \<longleftrightarrow> endswith (topic m) ''/info/nukiHubIp''"

text \<open>A poll with every message dropped that is not an address announcement.\<close>

definition announcements_only :: "poll \<Rightarrow> poll" where
  "announcements_only p = p\<lparr>delivered := filter is_announcement (delivered p)\<rparr>"

text \<open>
  The two halves of a setting as \<^verbatim>\<open>split("=", 1)\<close> gives them, and the test
  \<^verbatim>\<open>"=" in setting\<close>.
\<close>

definition setting_key :: "string \<Rightarrow> string" where
  "setting_key setting = takeWhile (\<lambda>ch. ch \<noteq> CHR ''='') setting"

definition setting_value :: "string \<Rightarrow> string" where
  "setting_value setting = tl (dropWhile (\<lambda>ch. ch \<noteq> CHR ''='') setting)"

definition well_formed :: "string \<Rightarrow> bool" where
  "well_formed setting \<longleftrightarrow> CHR ''='' \<in> set setting"

text \<open>
  The URL that \<^verbatim>\<open>fetch_coredump\<close> builds from the address, and the credentials it installs:
  both the user and the password must be given and non-empty.
\<close>

definition coredump_url :: "string \<Rightarrow> string" where
  "coredump_url ip = ''http://'' @ ip @ ''/get?page=coredump''"

definition credentials :: "string option \<Rightarrow> string option \<Rightarrow> (string \<times> string) option" where
  "credentials web_user web_password =
     (if truthy web_user \<and> truthy web_password then Some (the web_user, the web_password)
      else None)"







section \<open>Properties\<close>

subsection \<open>The handler leaves the transport and the topics alone\<close>

lemma calls_on_message: "calls (on_message loads m c) = calls c"
  by (simp add: on_message_def)

lemma calls_deliver: "calls (deliver loads ms c) = calls c"
  by (induction ms arbitrary: c) (simp_all add: calls_on_message)

lemma waiting_on_message: "waiting_for_topic (on_message loads m c) = waiting_for_topic c"
  by (simp add: on_message_def)

lemma waiting_deliver: "waiting_for_topic (deliver loads ms c) = waiting_for_topic c"
  by (induction ms arbitrary: c) (simp_all add: waiting_on_message)

lemma base_on_message: "base_topic (on_message loads m c) = base_topic c"
  by (simp add: on_message_def)

lemma base_deliver: "base_topic (deliver loads ms c) = base_topic c"
  by (induction ms arbitrary: c) (simp_all add: base_on_message)

lemma calls_await_response:
  "await_response loads st t ps c = Some c' \<Longrightarrow> calls c' = calls c"
  by (induction ps arbitrary: c) (auto simp: calls_deliver split: if_splits)

subsection \<open>update\_config\<close>

text \<open>For a valid target and a non-empty environment, the call is its loop.\<close>

lemma update_config_valid:
  assumes "target = ''hub'' \<or> target = ''lock'' \<or> target = ''opener''"
  shows "update_config loads dumps target cfg timeout (p0 # ps) c =
     (case await_response loads (clock p0) timeout ps
             (deliver loads (delivered p0)
               (c\<lparr>waiting_for_topic := Some (topic_base (base_topic c) target @ TOPIC_RESULT_SUFFIX),
                  response := PyNone,
                  calls := calls c @ [Subscribe (topic_base (base_topic c) target @ TOPIC_RESULT_SUFFIX),
                     Publish (topic_base (base_topic c) target @ TOPIC_ACTION_SUFFIX) (dumps (PyDict cfg))]\<rparr>)) of
        None \<Rightarrow> None
      | Some c4 \<Rightarrow> Some (Inr (response c4,
           c4\<lparr>calls := calls c4 @ [Unsubscribe (topic_base (base_topic c) target @ TOPIC_RESULT_SUFFIX)]\<rparr>)))"
  using assms by (auto simp: update_config_def topic_base_def Let_def split: option.splits)

text \<open>Messages that are off the awaited topic, or carry the sentinel, leave the slot alone.\<close>

lemma response_on_message_sentinel:
  "waiting_for_topic c = Some rt \<Longrightarrow> topic m = rt \<longrightarrow> payload m = ''--'' \<Longrightarrow>
   response (on_message loads m c) = response c"
  by (auto simp: on_message_def)

lemma response_deliver_sentinel:
  "waiting_for_topic c = Some rt \<Longrightarrow> \<forall>m\<in>set ms. topic m = rt \<longrightarrow> payload m = ''--'' \<Longrightarrow>
   response (deliver loads ms c) = response c"
  by (induction ms arbitrary: c) (simp_all add: response_on_message_sentinel waiting_on_message)

lemma await_response_timeout:
  "response c = PyNone \<Longrightarrow> waiting_for_topic c = Some rt \<Longrightarrow>
   \<forall>p\<in>set pre. \<forall>m\<in>set (delivered p). topic m = rt \<longrightarrow> payload m = ''--'' \<Longrightarrow>
   t < clock pd - st \<Longrightarrow>
   \<exists>c'. await_response loads st t (pre @ pd # post) c = Some c' \<and> response c' = PyNone"
proof (induction pre arbitrary: c)
  case Nil
  then show ?case by simp
next
  case (Cons p pre)
  have "response (deliver loads (delivered p) c) = PyNone"
    using Cons.prems by (simp add: response_deliver_sentinel)
  moreover have "waiting_for_topic (deliver loads (delivered p) c) = Some rt"
    using Cons.prems by (simp add: waiting_deliver)
  ultimately show ?case
    using Cons.IH [of "deliver loads (delivered p) c"] Cons.prems by auto
qed

text \<open>
  C10. A target other than \<^verbatim>\<open>hub\<close>, \<^verbatim>\<open>lock\<close> and \<^verbatim>\<open>opener\<close> makes \<^verbatim>\<open>update_config\<close> raise
  \<^verbatim>\<open>ValueError\<close> with the client exactly as it was: nothing is subscribed or published,
  and the response slot and \<^verbatim>\<open>waiting_for_topic\<close> keep their values. This holds in every
  environment, the empty one included, so the exception comes before any waiting.
\<close>

theorem update_config_bad_target:
  assumes "target \<noteq> ''hub''" and "target \<noteq> ''lock''" and "target \<noteq> ''opener''"
  shows "update_config loads dumps target config_dict timeout env c =
           Some (Inl (ValueError (''Target must be 'hub', 'lock', or 'opener'' @ [CHR 0x27]), c))"
  using assms by (simp add: update_config_def)

theorem update_config_bad_target_witness:
  "update_config (\<lambda>s. None) (\<lambda>d. ''{}'') ''bridge'' [] 10 [] (NukiConfigClient ''nuki/hub'') =
     Some (Inl (ValueError (''Target must be 'hub', 'lock', or 'opener'' @ [CHR 0x27]),
                NukiConfigClient ''nuki/hub''))"
  using update_config_bad_target
    [of "''bridge''" "\<lambda>s. None" "\<lambda>d. ''{}''" "[]" 10 "[]" "NukiConfigClient ''nuki/hub''"]
  by simp

text \<open>
  C2. Take a call of \<^verbatim>\<open>update_config\<close> with a valid target in which every message handled
  on the result topic before the deadline is noticed carries the sentinel (so no
  resolving message arrives), and in which the clock does pass the deadline at some
  reading. Then the call returns, and it returns \<^verbatim>\<open>None\<close>, the "no response" value, not
  an exception. And whenever a call with a valid target returns, resolved or timed out,
  what it did on the transport is one subscribe to the result topic, one publish to the
  action topic and, last, one unsubscribe from the result topic.
\<close>

theorem update_config_timeout:
  assumes tgt: "target = ''hub'' \<or> target = ''lock'' \<or> target = ''opener''"
    and late: "timeout < clock pd - clock p0"
    and quiet: "\<forall>p\<in>set (p0 # pre). \<forall>m\<in>set (delivered p).
                  topic m = topic_base (base_topic c) target @ TOPIC_RESULT_SUFFIX \<longrightarrow>
                  payload m = ''--''"
  shows "(\<exists>c'. update_config loads dumps target cfg timeout (p0 # pre @ pd # post) c =
                 Some (Inr (PyNone, c'))) \<and>
         (\<forall>env r c'. update_config loads dumps target cfg timeout env c = Some (Inr (r, c')) \<longrightarrow>
            calls c' = calls c @
              [Subscribe (topic_base (base_topic c) target @ TOPIC_RESULT_SUFFIX),
               Publish (topic_base (base_topic c) target @ TOPIC_ACTION_SUFFIX) (dumps (PyDict cfg)),
               Unsubscribe (topic_base (base_topic c) target @ TOPIC_RESULT_SUFFIX)])"
proof (intro conjI allI impI)
  let ?rt = "topic_base (base_topic c) target @ TOPIC_RESULT_SUFFIX"
  let ?c3 = "c\<lparr>waiting_for_topic := Some ?rt, response := PyNone,
                calls := calls c @ [Subscribe ?rt,
                  Publish (topic_base (base_topic c) target @ TOPIC_ACTION_SUFFIX) (dumps (PyDict cfg))]\<rparr>"
  let ?d = "deliver loads (delivered p0) ?c3"
  have r: "response ?d = PyNone"
    using quiet by (simp add: response_deliver_sentinel [where rt = ?rt])
  have w: "waiting_for_topic ?d = Some ?rt"
    by (simp add: waiting_deliver)
  obtain c4 where c4: "await_response loads (clock p0) timeout (pre @ pd # post) ?d = Some c4"
    "response c4 = PyNone"
    using await_response_timeout [OF r w _ late, of pre loads post] quiet by auto
  show "\<exists>c'. update_config loads dumps target cfg timeout (p0 # pre @ pd # post) c =
              Some (Inr (PyNone, c'))"
    using c4 by (simp add: update_config_valid [OF tgt])
next
  fix env r c'
  assume ret: "update_config loads dumps target cfg timeout env c = Some (Inr (r, c'))"
  then obtain p0' ps where env: "env = p0' # ps"
    using tgt by (cases env) (auto simp: update_config_def Let_def)
  show "calls c' = calls c @
              [Subscribe (topic_base (base_topic c) target @ TOPIC_RESULT_SUFFIX),
               Publish (topic_base (base_topic c) target @ TOPIC_ACTION_SUFFIX) (dumps (PyDict cfg)),
               Unsubscribe (topic_base (base_topic c) target @ TOPIC_RESULT_SUFFIX)]"
    using ret unfolding env update_config_valid [OF tgt]
    by (auto split: option.splits dest!: calls_await_response simp: calls_deliver)
qed

theorem update_config_timeout_witness:
  "\<exists>c'. update_config (\<lambda>s. None) (\<lambda>d. ''{}'') ''lock'' [] 10
           [\<lparr>clock = 0, delivered =
               [\<lparr>topic = ''nuki/hub/lock/configuration/commandResult'', payload = ''--''\<rparr>]\<rparr>,
            \<lparr>clock = 5, delivered = []\<rparr>,
            \<lparr>clock = 21 / 2, delivered = []\<rparr>]
           (NukiConfigClient ''nuki/hub'') = Some (Inr (PyNone, c')) \<and>
         calls c' =
           [Subscribe ''nuki/hub/lock/configuration/commandResult'',
            Publish ''nuki/hub/lock/configuration/action'' ''{}'',
            Unsubscribe ''nuki/hub/lock/configuration/commandResult'']"
proof -
  let ?p0 = "\<lparr>clock = 0, delivered =
               [\<lparr>topic = ''nuki/hub/lock/configuration/commandResult'', payload = ''--''\<rparr>]\<rparr>"
  let ?p1 = "\<lparr>clock = 5, delivered = []\<rparr>"
  let ?pd = "\<lparr>clock = 21 / 2, delivered = []\<rparr>"
  let ?c = "NukiConfigClient ''nuki/hub''"
  have tgt: "''lock'' = ''hub'' \<or> ''lock'' = ''lock'' \<or> ''lock'' = ''opener''"
    by simp
  have late: "(10::real) < clock ?pd - clock ?p0"
    by simp
  have quiet: "\<forall>p\<in>set (?p0 # [?p1]). \<forall>m\<in>set (delivered p).
                 topic m = topic_base (base_topic ?c) ''lock'' @ TOPIC_RESULT_SUFFIX \<longrightarrow>
                 payload m = ''--''"
    by simp
  show ?thesis
    using update_config_timeout [OF tgt late quiet, of "\<lambda>s. None" "\<lambda>d. ''{}''" "[]" "[]"]
    by (auto simp: topic_base_def NukiConfigClient_def TOPIC_RESULT_SUFFIX_def
        TOPIC_ACTION_SUFFIX_def)
qed

text \<open>The result topic of every target is told apart from an address announcement.\<close>

lemma endswith_iff: "endswith s suf \<longleftrightarrow> (\<exists>pre. s = pre @ suf)"
proof
  assume "endswith s suf"
  then have "s = take (length s - length suf) s @ suf"
    by (metis append_take_drop_id endswith_def)
  then show "\<exists>pre. s = pre @ suf" ..
next
  assume "\<exists>pre. s = pre @ suf"
  then show "endswith s suf" by (auto simp: endswith_def)
qed

lemma result_topic_not_ip: "\<not> endswith (x @ TOPIC_RESULT_SUFFIX) ''/info/nukiHubIp''"
proof
  assume "endswith (x @ TOPIC_RESULT_SUFFIX) ''/info/nukiHubIp''"
  then obtain pre where "x @ TOPIC_RESULT_SUFFIX = pre @ ''/info/nukiHubIp''"
    by (auto simp: endswith_iff)
  then have "last (x @ TOPIC_RESULT_SUFFIX) = last (pre @ ''/info/nukiHubIp'')"
    by simp
  then show False
    by (simp add: TOPIC_RESULT_SUFFIX_def)
qed

lemma on_message_result:
  assumes "waiting_for_topic c = Some (x @ TOPIC_RESULT_SUFFIX)"
    and "topic m = x @ TOPIC_RESULT_SUFFIX"
  shows "on_message loads m c =
           (if payload m = ''--'' then c
            else c\<lparr>response := (case loads (payload m) of Some v \<Rightarrow> v | None \<Rightarrow> PyStr (payload m))\<rparr>)"
  using assms result_topic_not_ip [of x]
  by (simp add: on_message_def truthy_def TOPIC_RESULT_SUFFIX_def)



subsection \<open>wait\_for\_ip\<close>

lemma ip_on_message:
  "ip_address (on_message loads m c) = (if is_announcement m then Some (payload m) else ip_address c)"
  by (simp add: on_message_def is_announcement_def)

lemma ip_deliver:
  "ip_address (deliver loads ms c) =
     (if filter is_announcement ms = [] then ip_address c
      else Some (payload (last (filter is_announcement ms))))"
  by (induction ms arbitrary: c) (auto simp: ip_on_message)

lemma calls_await_ip:
  "await_ip loads st t ps c = Some r \<Longrightarrow> calls (case r of Inl d \<Rightarrow> d | Inr d \<Rightarrow> d) = calls c"
  by (induction ps arbitrary: c) (auto simp: calls_deliver split: if_splits)

lemma await_ip_timeout:
  "ip_address c = None \<Longrightarrow>
   \<forall>p\<in>set pre. filter is_announcement (delivered p) = [] \<Longrightarrow>
   t < clock pd - st \<Longrightarrow>
   \<exists>c'. await_ip loads st t (pre @ pd # post) c = Some (Inl c') \<and> calls c' = calls c"
proof (induction pre arbitrary: c)
  case Nil
  then show ?case by simp
next
  case (Cons p pre)
  have "ip_address (deliver loads (delivered p) c) = None"
    using Cons.prems by (simp add: ip_deliver)
  then show ?case
    using Cons.IH [of "deliver loads (delivered p) c"] Cons.prems
    by (auto simp: calls_deliver)
qed

text \<open>
  C5. When no address is stored, no announcement is handled and the clock passes the
  deadline, \<^verbatim>\<open>wait_for_ip\<close> returns \<^verbatim>\<open>None\<close> from inside its loop: the transport has seen
  the subscribe to the announcement topic and no unsubscribe.
\<close>

theorem wait_for_ip_timeout_no_unsubscribe:
  assumes "ip_address c = None"
    and "\<forall>p\<in>set (p0 # pre). filter is_announcement (delivered p) = []"
    and "timeout < clock pd - clock p0"
  shows "\<exists>c'. wait_for_ip loads timeout (p0 # pre @ pd # post) c = Some (None, c') \<and>
              calls c' = calls c @ [Subscribe (base_topic c @ ''/info/nukiHubIp'')]"
proof -
  let ?c1 = "c\<lparr>calls := calls c @ [Subscribe (base_topic c @ ''/info/nukiHubIp'')]\<rparr>"
  have "ip_address (deliver loads (delivered p0) ?c1) = None"
    using assms by (simp add: ip_deliver)
  from await_ip_timeout [OF this _ assms(3), of pre loads post] assms(2)
  show ?thesis
    by (auto simp: wait_for_ip_def Let_def calls_deliver)
qed

theorem wait_for_ip_timeout_no_unsubscribe_witness:
  "\<exists>c'. wait_for_ip (\<lambda>s. None) 10
           [\<lparr>clock = 0, delivered = []\<rparr>, \<lparr>clock = 5, delivered = []\<rparr>, \<lparr>clock = 11, delivered = []\<rparr>]
           (NukiConfigClient ''nuki/hub'') = Some (None, c') \<and>
        calls c' = [Subscribe ''nuki/hub/info/nukiHubIp'']"
proof -
  let ?p0 = "\<lparr>clock = 0, delivered = []\<rparr>"
  let ?p1 = "\<lparr>clock = 5, delivered = []\<rparr>"
  let ?pd = "\<lparr>clock = 11, delivered = []\<rparr>"
  have a: "ip_address (NukiConfigClient ''nuki/hub'') = None"
    by (simp add: NukiConfigClient_def)
  have b: "\<forall>p\<in>set (?p0 # [?p1]). filter is_announcement (delivered p) = []"
    by simp
  have c: "(10::real) < clock ?pd - clock ?p0"
    by simp
  show ?thesis
    using wait_for_ip_timeout_no_unsubscribe [OF a b c, of "\<lambda>s. None" "[]"]
    by (simp add: NukiConfigClient_def)
qed

lemma await_ip_resolves:
  "ip_address c = None \<Longrightarrow>
   \<forall>p\<in>set pre. filter is_announcement (delivered p) = [] \<Longrightarrow>
   \<forall>p\<in>set (pre @ [pk]). clock p - st \<le> t \<Longrightarrow>
   filter is_announcement (delivered pk) \<noteq> [] \<Longrightarrow>
   \<exists>c'. await_ip loads st t (pre @ pk # post) c = Some (Inr c') \<and>
        ip_address c' = Some (payload (last (filter is_announcement (delivered pk))))"
proof (induction pre arbitrary: c)
  case Nil
  have "ip_address (deliver loads (delivered pk) c) =
          Some (payload (last (filter is_announcement (delivered pk))))"
    using Nil.prems by (simp add: ip_deliver)
  then show ?case
    using Nil.prems by (cases post) auto
next
  case (Cons p pre)
  have "ip_address (deliver loads (delivered p) c) = None"
    using Cons.prems by (simp add: ip_deliver)
  then show ?case
    using Cons.IH [of "deliver loads (delivered p) c"] Cons.prems by auto
qed

lemma ip_deliver_filter:
  "ip_address (deliver loads (filter is_announcement ms) d) =
     (if filter is_announcement ms = [] then ip_address d
      else Some (payload (last (filter is_announcement ms))))"
  by (simp add: ip_deliver)

lemma ip_deliver_cong:
  assumes "ip_address c = ip_address d"
  shows "ip_address (deliver loads ms c) = ip_address (deliver loads (filter is_announcement ms) d)"
  unfolding ip_deliver_filter ip_deliver [of loads ms c] assms ..

lemma await_ip_filter:
  "ip_address c = ip_address d \<Longrightarrow>
   map_option (map_sum ip_address ip_address) (await_ip loads st t ps c) =
   map_option (map_sum ip_address ip_address) (await_ip loads st t (map announcements_only ps) d)"
proof (induction ps arbitrary: c d)
  case Nil
  then show ?case by simp
next
  case (Cons p ps)
  have step: "ip_address (deliver loads (delivered p) c) =
        ip_address (deliver loads (delivered (announcements_only p)) d)"
    using ip_deliver_cong [OF Cons.prems] by (simp add: announcements_only_def)
  have clk: "clock (announcements_only p) = clock p"
    by (simp add: announcements_only_def)
  show ?case
  proof (cases "ip_address d")
    case None
    then have "ip_address c = None" using Cons.prems by simp
    with None Cons.IH [OF step] show ?thesis
      by (simp add: clk)
  next
    case (Some a)
    then have "ip_address c = Some a" using Cons.prems by simp
    with Some show ?thesis by simp
  qed
qed


lemma wait_for_ip_fst:
  "map_option fst (wait_for_ip loads timeout (p0 # ps) c) =
     map_option (\<lambda>r. case r of Inl x \<Rightarrow> None | Inr a \<Rightarrow> a)
       (map_option (map_sum ip_address ip_address)
          (await_ip loads (clock p0) timeout ps
             (deliver loads (delivered p0)
                (c\<lparr>calls := calls c @ [Subscribe (base_topic c @ ''/info/nukiHubIp'')]\<rparr>))))"
  by (auto simp: wait_for_ip_def Let_def split: option.splits sum.splits)

lemma wait_for_ip_filter:
  "map_option fst (wait_for_ip loads timeout env c) =
   map_option fst (wait_for_ip loads timeout (map announcements_only env) c)"
proof (cases env)
  case Nil
  then show ?thesis by (simp add: wait_for_ip_def)
next
  case (Cons p0 ps)
  let ?c1 = "c\<lparr>calls := calls c @ [Subscribe (base_topic c @ ''/info/nukiHubIp'')]\<rparr>"
  have clk: "clock (announcements_only p0) = clock p0"
    by (simp add: announcements_only_def)
  have "ip_address (deliver loads (delivered p0) ?c1) =
        ip_address (deliver loads (delivered (announcements_only p0)) ?c1)"
    using ip_deliver_cong [of ?c1 ?c1 loads "delivered p0"] by (simp add: announcements_only_def)
  from await_ip_filter [OF this, of loads "clock p0" timeout ps]
  show ?thesis
    unfolding Cons list.map wait_for_ip_fst clk by (rule arg_cong)
qed

text \<open>
  C4, as the code has it. A session that starts with no address stored resolves with
  the payload of the last announcement handled before the check that first finds an
  address: the last one of the start interval if that interval has one, otherwise the
  last one of the first polling interval that has one, provided the clock readings up
  to there are within the deadline. That is the first announcement when the interval
  brings a single one. Any payload is taken, the sentinel included. Messages whose
  topic does not end in \<^verbatim>\<open>/info/nukiHubIp\<close> have no effect on what the session returns.
\<close>

theorem wait_for_ip_resolves:
  assumes "ip_address c = None"
  shows "(filter is_announcement (delivered p0) \<noteq> [] \<longrightarrow>
           (\<exists>c'. wait_for_ip loads timeout (p0 # ps) c =
                   Some (Some (payload (last (filter is_announcement (delivered p0)))), c'))) \<and>
         ((\<forall>p\<in>set (p0 # pre). filter is_announcement (delivered p) = []) \<and>
          (\<forall>p\<in>set (pre @ [pk]). clock p - clock p0 \<le> timeout) \<and>
          filter is_announcement (delivered pk) \<noteq> [] \<longrightarrow>
           (\<exists>c'. wait_for_ip loads timeout (p0 # pre @ pk # post) c =
                   Some (Some (payload (last (filter is_announcement (delivered pk)))), c'))) \<and>
         map_option fst (wait_for_ip loads timeout env c) =
           map_option fst (wait_for_ip loads timeout (map announcements_only env) c)"
proof (intro conjI impI)
  let ?c1 = "c\<lparr>calls := calls c @ [Subscribe (base_topic c @ ''/info/nukiHubIp'')]\<rparr>"
  assume "filter is_announcement (delivered p0) \<noteq> []"
  then have "ip_address (deliver loads (delivered p0) ?c1) =
          Some (payload (last (filter is_announcement (delivered p0))))"
    by (simp add: ip_deliver)
  then show "\<exists>c'. wait_for_ip loads timeout (p0 # ps) c =
                   Some (Some (payload (last (filter is_announcement (delivered p0)))), c')"
    by (cases ps) (auto simp: wait_for_ip_def Let_def)
next
  let ?c1 = "c\<lparr>calls := calls c @ [Subscribe (base_topic c @ ''/info/nukiHubIp'')]\<rparr>"
  assume a: "(\<forall>p\<in>set (p0 # pre). filter is_announcement (delivered p) = []) \<and>
          (\<forall>p\<in>set (pre @ [pk]). clock p - clock p0 \<le> timeout) \<and>
          filter is_announcement (delivered pk) \<noteq> []"
  have "ip_address (deliver loads (delivered p0) ?c1) = None"
    using a assms by (simp add: ip_deliver)
  from await_ip_resolves [OF this, of pre pk "clock p0" timeout loads post] a
  show "\<exists>c'. wait_for_ip loads timeout (p0 # pre @ pk # post) c =
                   Some (Some (payload (last (filter is_announcement (delivered pk)))), c')"
    by (auto simp: wait_for_ip_def Let_def)
next
  show "map_option fst (wait_for_ip loads timeout env c) =
           map_option fst (wait_for_ip loads timeout (map announcements_only env) c)"
    by (rule wait_for_ip_filter)
qed

theorem wait_for_ip_resolves_witness:
  "\<exists>c'. wait_for_ip (\<lambda>s. None) 10
     [\<lparr>clock = 0, delivered = []\<rparr>,
      \<lparr>clock = 1, delivered = [\<lparr>topic = ''nuki/hub/maintenance/uptime'', payload = ''7''\<rparr>]\<rparr>,
      \<lparr>clock = 2, delivered = [\<lparr>topic = ''nuki/hub/info/nukiHubIp'', payload = ''--''\<rparr>]\<rparr>]
     (NukiConfigClient ''nuki/hub'') = Some (Some ''--'', c')"
proof -
  let ?p0 = "\<lparr>clock = 0, delivered = []\<rparr>"
  let ?p1 = "\<lparr>clock = 1, delivered = [\<lparr>topic = ''nuki/hub/maintenance/uptime'', payload = ''7''\<rparr>]\<rparr>"
  let ?pk = "\<lparr>clock = 2, delivered = [\<lparr>topic = ''nuki/hub/info/nukiHubIp'', payload = ''--''\<rparr>]\<rparr>"
  have a: "ip_address (NukiConfigClient ''nuki/hub'') = None"
    by (simp add: NukiConfigClient_def)
  have b: "(\<forall>p\<in>set (?p0 # [?p1]). filter is_announcement (delivered p) = []) \<and>
          (\<forall>p\<in>set ([?p1] @ [?pk]). clock p - clock ?p0 \<le> 10) \<and>
          filter is_announcement (delivered ?pk) \<noteq> []"
    by (simp add: is_announcement_def endswith_def)
  have c: "payload (last (filter is_announcement (delivered ?pk))) = ''--''"
    by (simp add: is_announcement_def endswith_def)
  show ?thesis
    using wait_for_ip_resolves [OF a, where ?p0.0 = ?p0 and pre = "[?p1]" and pk = ?pk
        and timeout = 10 and loads = "\<lambda>s. None" and post = "[]"] b c
    by simp
qed

text \<open>
  Two announcements handled within one polling interval: the session returns the
  second.
\<close>

theorem wait_for_ip_first_counterexample:
  "wait_for_ip (\<lambda>s. None) 10
     [\<lparr>clock = 0, delivered = []\<rparr>,
      \<lparr>clock = 1, delivered =
         [\<lparr>topic = ''nuki/hub/info/nukiHubIp'', payload = ''192.168.1.50''\<rparr>,
          \<lparr>topic = ''nuki/hub/info/nukiHubIp'', payload = ''192.168.1.51''\<rparr>]\<rparr>]
     (NukiConfigClient ''nuki/hub'') =
   Some (Some ''192.168.1.51'',
         \<lparr>base_topic = ''nuki/hub'', response = PyNone, waiting_for_topic = None,
          ip_address = Some ''192.168.1.51'',
          calls = [Subscribe ''nuki/hub/info/nukiHubIp'', Unsubscribe ''nuki/hub/info/nukiHubIp'']\<rparr>)"
  by (simp add: wait_for_ip_def NukiConfigClient_def on_message_def endswith_def Let_def)




subsection \<open>The settings loop\<close>

lemma parse_setting_config:
  "fst (parse_setting dmax target s st) =
     (if well_formed s
      then AList.update (setting_key s) (coerce_value dmax (setting_value s)) (fst st)
      else fst st)"
  by (simp add: parse_setting_def Let_def well_formed_def setting_key_def setting_value_def)

lemma parse_setting_out:
  "snd (parse_setting dmax target s st) =
     (if well_formed s
      then (if target \<noteq> ''hub'' \<and> setting_key s \<notin> set (valid_keys target)
            then snd st @ [key_warning (setting_key s) target] else snd st)
      else snd st @ [ignored_line s])"
  by (simp add: parse_setting_def Let_def well_formed_def setting_key_def)

lemma parse_settings_lookup:
  "map_of (fst (parse_settings dmax target ss st)) k =
     (if filter (\<lambda>s. well_formed s \<and> setting_key s = k) ss = [] then map_of (fst st) k
      else Some (coerce_value dmax
                  (setting_value (last (filter (\<lambda>s. well_formed s \<and> setting_key s = k) ss)))))"
proof (induction ss arbitrary: st)
  case Nil
  then show ?case by simp
next
  case (Cons s ss)
  show ?case
    by (simp add: Cons.IH parse_setting_config update_conv')
qed

lemma parse_settings_out_mono:
  "set (snd st) \<subseteq> set (snd (parse_settings dmax target ss st))"
proof (induction ss arbitrary: st)
  case Nil
  then show ?case by simp
next
  case (Cons s ss)
  have "set (snd st) \<subseteq> set (snd (parse_setting dmax target s st))"
    by (auto simp: parse_setting_out)
  with Cons.IH [of "parse_setting dmax target s st"] show ?case by auto
qed

lemma parse_settings_warns:
  "s \<in> set ss \<Longrightarrow> well_formed s \<Longrightarrow> target \<noteq> ''hub'' \<Longrightarrow>
   setting_key s \<notin> set (valid_keys target) \<Longrightarrow>
   key_warning (setting_key s) target \<in> set (snd (parse_settings dmax target ss st))"
proof (induction ss arbitrary: st)
  case Nil
  then show ?case by simp
next
  case (Cons a ss)
  show ?case
  proof (cases "s = a")
    case True
    then have "key_warning (setting_key s) target \<in> set (snd (parse_setting dmax target a st))"
      using Cons.prems by (simp add: parse_setting_out)
    then show ?thesis
      using parse_settings_out_mono [of "parse_setting dmax target a st" dmax target ss] by auto
  next
    case False
    then show ?thesis using Cons by auto
  qed
qed

lemma warning_not_ignored: "key_warning k t \<noteq> ignored_line s"
  by (simp add: key_warning_def ignored_line_def)

lemma parse_settings_hub_out:
  "snd (parse_settings dmax ''hub'' ss st) =
     snd st @ map ignored_line (filter (\<lambda>s. \<not> well_formed s) ss)"
  by (induction ss arbitrary: st) (simp_all add: parse_setting_out)

lemma coerce_1: "coerce_value dmax ''1'' = PyInt 1"
  by (auto simp: coerce_value_def py_int_def py_isspace_def py_isdigit_def decimal_def digit_value_def Let_def)

text \<open>
  C7, as the code has it. Take an entry of the settings that contains an equals sign and
  whose key is not among the keys known for the target. For every target other than
  \<^verbatim>\<open>hub\<close> the loop prints the warning that names the key. For the target \<^verbatim>\<open>hub\<close> the
  loop prints no warning at all. In both cases the key is in the resulting
  configuration, bound to the coerced value of the last entry with that key.
\<close>

theorem parse_settings_unknown_key:
  assumes "setting \<in> set settings" and "well_formed setting"
    and "setting_key setting \<notin> set (valid_keys target)"
  shows "(target \<noteq> ''hub'' \<longrightarrow>
            key_warning (setting_key setting) target
              \<in> set (snd (parse_settings dmax target settings st))) \<and>
         (target = ''hub'' \<longrightarrow>
            (\<forall>k. key_warning k target \<notin> set (snd (parse_settings dmax target settings ([], []))))) \<and>
         map_of (fst (parse_settings dmax target settings st)) (setting_key setting) =
           Some (coerce_value dmax (setting_value
             (last (filter (\<lambda>s. well_formed s \<and> setting_key s = setting_key setting) settings))))"
proof (intro conjI impI allI)
  assume "target \<noteq> ''hub''"
  then show "key_warning (setting_key setting) target
              \<in> set (snd (parse_settings dmax target settings st))"
    using assms by (simp add: parse_settings_warns)
next
  fix k
  assume "target = ''hub''"
  then show "key_warning k target \<notin> set (snd (parse_settings dmax target settings ([], [])))"
    by (auto simp: parse_settings_hub_out warning_not_ignored)
next
  have "filter (\<lambda>s. well_formed s \<and> setting_key s = setting_key setting) settings \<noteq> []"
    using assms by (auto simp: filter_empty_conv)
  then show "map_of (fst (parse_settings dmax target settings st)) (setting_key setting) =
           Some (coerce_value dmax (setting_value
             (last (filter (\<lambda>s. well_formed s \<and> setting_key s = setting_key setting) settings))))"
    by (simp add: parse_settings_lookup)
qed

theorem parse_settings_unknown_key_witness:
  "key_warning ''foo'' ''lock'' \<in> set (snd (parse_settings 4300 ''lock'' [''foo=1''] ([], []))) \<and>
   map_of (fst (parse_settings 4300 ''lock'' [''foo=1''] ([], []))) ''foo'' = Some (PyInt 1)"
proof -
  have a: "''foo=1'' \<in> set [''foo=1'']" by simp
  have b: "well_formed ''foo=1''" by (simp add: well_formed_def)
  have k: "setting_key ''foo=1'' = ''foo''" by (simp add: setting_key_def)
  have v: "setting_value ''foo=1'' = ''1''" by (simp add: setting_value_def)
  have c: "setting_key ''foo=1'' \<notin> set (valid_keys ''lock'')"
    by (simp add: k valid_keys_def LOCK_CONFIG_KEYS_basic_def LOCK_CONFIG_KEYS_advanced_def)
  show ?thesis
    using parse_settings_unknown_key [OF a b c, of 4300 "([], [])"]
    by (simp add: k v b coerce_1)
qed

text \<open>For the hub an unknown key is stored and no line is printed.\<close>

theorem parse_settings_hub_counterexample:
  "well_formed ''foo=1'' \<and> setting_key ''foo=1'' \<notin> set (valid_keys ''hub'') \<and>
   parse_settings 4300 ''hub'' [''foo=1''] ([], []) = ([(''foo'', PyInt 1)], [])"
  by (simp add: well_formed_def setting_key_def valid_keys_def HUB_CONFIG_KEYS_def
      parse_setting_def coerce_1 Let_def)

subsection \<open>The end-to-end scenario\<close>

lemma coerce_2: "coerce_value dmax ''2'' = PyInt 2"
  by (auto simp: coerce_value_def py_int_def py_isspace_def py_isdigit_def decimal_def
      digit_value_def Let_def)

lemma coerce_true: "coerce_value dmax ''true'' = PyBool True"
  by (simp add: coerce_value_def py_int_def py_isspace_def py_isdigit_def Let_def
      lower_def lower_char_def)

lemma coerce_MyLock: "coerce_value dmax ''MyLock'' = PyStr ''MyLock''"
  by (simp add: coerce_value_def py_int_def py_isspace_def py_isdigit_def Let_def
      lower_def lower_char_def)

lemma await_response_resolved:
  "response c \<noteq> PyNone \<Longrightarrow> await_response loads st t ps c = Some c"
  by (cases ps) simp_all

text \<open>
  C9. For the target \<^verbatim>\<open>lock\<close> the three entries \<^verbatim>\<open>ledBrightness=2\<close>, \<^verbatim>\<open>pairingEnabled=true\<close>
  and \<^verbatim>\<open>name=MyLock\<close> give the configuration with the integer 2, the boolean true and
  the string \<^verbatim>\<open>MyLock\<close>, in this order and with no line printed. \<^verbatim>\<open>update_config\<close> on it
  publishes \<^verbatim>\<open>json.dumps\<close> of this configuration once, to the action topic of the lock,
  between the subscribe and the unsubscribe; and when the message \<^verbatim>\<open>{"ledBrightness":2}\<close>
  then arrives on the result topic before the deadline, the call returns what
  \<^verbatim>\<open>json.loads\<close> makes of it.
\<close>

theorem lock_scenario:
  assumes parsed: \<open>loads ''{"ledBrightness":2}'' = Some (PyDict [(''ledBrightness'', PyInt 2)])\<close>
    and intime: "later - start \<le> timeout"
  shows \<open>parse_settings dmax ''lock'' [''ledBrightness=2'', ''pairingEnabled=true'', ''name=MyLock'']
            ([], []) =
          ([(''ledBrightness'', PyInt 2), (''pairingEnabled'', PyBool True),
            (''name'', PyStr ''MyLock'')], []) \<and>
         (\<exists>c'. update_config loads dumps ''lock''
                  [(''ledBrightness'', PyInt 2), (''pairingEnabled'', PyBool True),
                   (''name'', PyStr ''MyLock'')] timeout
                  (\<lparr>clock = start, delivered = []\<rparr> #
                   \<lparr>clock = later, delivered =
                      [\<lparr>topic = base_topic c @ ''/lock/configuration/commandResult'',
                        payload = ''{"ledBrightness":2}''\<rparr>]\<rparr> # post) c =
                Some (Inr (PyDict [(''ledBrightness'', PyInt 2)], c')) \<and>
              calls c' = calls c @
                [Subscribe (base_topic c @ ''/lock/configuration/commandResult''),
                 Publish (base_topic c @ ''/lock/configuration/action'')
                   (dumps (PyDict [(''ledBrightness'', PyInt 2), (''pairingEnabled'', PyBool True),
                                   (''name'', PyStr ''MyLock'')])),
                 Unsubscribe (base_topic c @ ''/lock/configuration/commandResult'')])\<close>
proof (rule conjI)
  show "parse_settings dmax ''lock'' [''ledBrightness=2'', ''pairingEnabled=true'', ''name=MyLock'']
            ([], []) =
          ([(''ledBrightness'', PyInt 2), (''pairingEnabled'', PyBool True),
            (''name'', PyStr ''MyLock'')], [])"
    by (simp add: parse_setting_def Let_def coerce_2 coerce_true coerce_MyLock valid_keys_def
        LOCK_CONFIG_KEYS_basic_def LOCK_CONFIG_KEYS_advanced_def)
next
  let ?cfg = "[(''ledBrightness'', PyInt 2), (''pairingEnabled'', PyBool True),
              (''name'', PyStr ''MyLock'')]"
  let ?rt = "topic_base (base_topic c) ''lock'' @ TOPIC_RESULT_SUFFIX"
  let ?at = "topic_base (base_topic c) ''lock'' @ TOPIC_ACTION_SUFFIX"
  let ?c3 = "c\<lparr>waiting_for_topic := Some ?rt, response := PyNone,
               calls := calls c @ [Subscribe ?rt, Publish ?at (dumps (PyDict ?cfg))]\<rparr>"
  let ?m = \<open>\<lparr>topic = ?rt, payload = ''{"ledBrightness":2}''\<rparr>\<close>
  have rt: "?rt = base_topic c @ ''/lock/configuration/commandResult''"
    by (simp add: topic_base_def TOPIC_RESULT_SUFFIX_def)
  have at: "?at = base_topic c @ ''/lock/configuration/action''"
    by (simp add: topic_base_def TOPIC_ACTION_SUFFIX_def)
  have m: "on_message loads ?m ?c3 = ?c3\<lparr>response := PyDict [(''ledBrightness'', PyInt 2)]\<rparr>"
    using parsed
    by (simp add: on_message_result [where x = "topic_base (base_topic c) ''lock''"])
  have "await_response loads start timeout
          (\<lparr>clock = later, delivered = [?m]\<rparr> # post) ?c3 =
        Some (?c3\<lparr>response := PyDict [(''ledBrightness'', PyInt 2)]\<rparr>)"
    using intime by (simp add: m await_response_resolved)
  then have "update_config loads dumps ''lock'' ?cfg timeout
          (\<lparr>clock = start, delivered = []\<rparr> # \<lparr>clock = later, delivered = [?m]\<rparr> # post) c =
        Some (Inr (PyDict [(''ledBrightness'', PyInt 2)],
              ?c3\<lparr>response := PyDict [(''ledBrightness'', PyInt 2)],
                   calls := calls ?c3 @ [Unsubscribe ?rt]\<rparr>))"
    by (simp add: update_config_valid)
  then show \<open>\<exists>c'. update_config loads dumps ''lock'' ?cfg timeout
                  (\<lparr>clock = start, delivered = []\<rparr> #
                   \<lparr>clock = later, delivered =
                      [\<lparr>topic = base_topic c @ ''/lock/configuration/commandResult'',
                        payload = ''{"ledBrightness":2}''\<rparr>]\<rparr> # post) c =
                Some (Inr (PyDict [(''ledBrightness'', PyInt 2)], c')) \<and>
              calls c' = calls c @
                [Subscribe (base_topic c @ ''/lock/configuration/commandResult''),
                 Publish (base_topic c @ ''/lock/configuration/action'') (dumps (PyDict ?cfg)),
                 Unsubscribe (base_topic c @ ''/lock/configuration/commandResult'')]\<close>
    unfolding rt at by simp
qed

theorem lock_scenario_witness:
  \<open>\<exists>c'. update_config
            (\<lambda>s. if s = ''{"ledBrightness":2}'' then Some (PyDict [(''ledBrightness'', PyInt 2)]) else None)
            (\<lambda>d. ''{"ledBrightness": 2, "pairingEnabled": true, "name": "MyLock"}'') ''lock''
            (fst (parse_settings 4300 ''lock''
               [''ledBrightness=2'', ''pairingEnabled=true'', ''name=MyLock''] ([], []))) 10
            [\<lparr>clock = 0, delivered = []\<rparr>,
             \<lparr>clock = 1 / 10, delivered =
                [\<lparr>topic = ''nuki/hub/lock/configuration/commandResult'',
                  payload = ''{"ledBrightness":2}''\<rparr>]\<rparr>]
            (NukiConfigClient ''nuki/hub'') =
          Some (Inr (PyDict [(''ledBrightness'', PyInt 2)], c')) \<and>
        calls c' =
          [Subscribe ''nuki/hub/lock/configuration/commandResult'',
           Publish ''nuki/hub/lock/configuration/action''
             ''{"ledBrightness": 2, "pairingEnabled": true, "name": "MyLock"}'',
           Unsubscribe ''nuki/hub/lock/configuration/commandResult'']\<close>
  using lock_scenario
    [where loads = \<open>\<lambda>s. if s = ''{"ledBrightness":2}'' then Some (PyDict [(''ledBrightness'', PyInt 2)]) else None\<close>
       and later = "1 / 10" and start = 0 and timeout = 10 and dmax = 4300
       and dumps = \<open>\<lambda>d. ''{"ledBrightness": 2, "pairingEnabled": true, "name": "MyLock"}''\<close>
       and c = "NukiConfigClient ''nuki/hub''" and post = "[]"]
  by (simp add: NukiConfigClient_def)

subsection \<open>fetch\_coredump\<close>

text \<open>Once an address is found, the function is its classification of the download.\<close>

lemma fetch_coredump_found:
  assumes "wait_for_ip loads 10 env c = Some (Some ip, c1)" and "ip \<noteq> []"
  shows "fetch_coredump loads http_get write_file env c web_user web_password output_file =
     (let out2 = [''Waiting for Nuki Hub IP address...'', ''Nuki Hub IP: '' @ ip,
                  ''Downloading coredump from '' @ coredump_url ip @ ''...'']
      in case http_get (coredump_url ip) (credentials web_user web_password) of
           Body data \<Rightarrow>
             (case write_file output_file data of
                None \<Rightarrow> Some (out2 @ [''Coredump saved to '' @ output_file],
                              Some (output_file, data), c1)
              | Some e \<Rightarrow> Some (out2 @ [''Error fetching coredump: '' @ e], None, c1))
         | HTTPError code reason \<Rightarrow>
             (if code = 404 then Some (out2 @ [''Coredump not found on device.''], None, c1)
              else if code = 401 then
                Some (out2 @ [''Authentication failed. Please check --web-user and --web-password.''],
                      None, c1)
              else Some (out2 @ [''HTTP Error: '' @ str_int code @ '' '' @ reason], None, c1))
         | OtherError e \<Rightarrow> Some (out2 @ [''Error fetching coredump: '' @ e], None, c1))"
proof -
  have t: "truthy (Some ip)"
    using assms(2) by (simp add: truthy_def)
  show ?thesis
    unfolding fetch_coredump_def assms(1) option.case prod.case Let_def
      coredump_url_def credentials_def
    by (simp only: t not_True_eq_False if_False option.sel append_Cons append_Nil)
qed

lemma str_int_500: "str_int 500 = ''500''"
  by code_simp

text \<open>
  C8. After the address is found, \<^verbatim>\<open>fetch_coredump\<close> ends in exactly one of these ways.
  A successful response has its body written unchanged to the output file (when the
  file can be written), and the last line reports the file. The code 404 gives the line
  that the coredump is not on the device, the code 401 the line that authentication
  failed; every other code gives the general line with the code and the reason, and any
  other exception the general line with its text. In all but the first nothing is
  written.
\<close>

theorem fetch_coredump_classification:
  assumes ip: "wait_for_ip loads 10 env c = Some (Some ip, c1)" and ne: "ip \<noteq> []"
  shows
    "(http_get (coredump_url ip) (credentials web_user web_password) = Body data \<and>
      write_file output_file data = None \<longrightarrow>
        (\<exists>out. fetch_coredump loads http_get write_file env c web_user web_password output_file =
                 Some (out, Some (output_file, data), c1) \<and>
               last out = ''Coredump saved to '' @ output_file)) \<and>
     (http_get (coredump_url ip) (credentials web_user web_password) = HTTPError 404 reason \<longrightarrow>
        (\<exists>out. fetch_coredump loads http_get write_file env c web_user web_password output_file =
                 Some (out, None, c1) \<and>
               last out = ''Coredump not found on device.'')) \<and>
     (http_get (coredump_url ip) (credentials web_user web_password) = HTTPError 401 reason \<longrightarrow>
        (\<exists>out. fetch_coredump loads http_get write_file env c web_user web_password output_file =
                 Some (out, None, c1) \<and>
               last out = ''Authentication failed. Please check --web-user and --web-password.'')) \<and>
     (http_get (coredump_url ip) (credentials web_user web_password) = HTTPError code reason \<and>
      code \<noteq> 404 \<and> code \<noteq> 401 \<longrightarrow>
        (\<exists>out. fetch_coredump loads http_get write_file env c web_user web_password output_file =
                 Some (out, None, c1) \<and>
               last out = ''HTTP Error: '' @ str_int code @ '' '' @ reason)) \<and>
     (http_get (coredump_url ip) (credentials web_user web_password) = OtherError e \<longrightarrow>
        (\<exists>out. fetch_coredump loads http_get write_file env c web_user web_password output_file =
                 Some (out, None, c1) \<and>
               last out = ''Error fetching coredump: '' @ e))"
  by (simp add: fetch_coredump_found [OF ip ne])

theorem fetch_coredump_classification_witness:
  "(\<exists>out. fetch_coredump (\<lambda>s. None) (\<lambda>u a. Body [CHR 0x01, CHR 0x02]) (\<lambda>f d. None)
            [\<lparr>clock = 0, delivered = [\<lparr>topic = ''nuki/hub/info/nukiHubIp'', payload = ''192.168.1.50''\<rparr>]\<rparr>]
            (NukiConfigClient ''nuki/hub'') None None ''coredump.hex'' =
          Some (out, Some (''coredump.hex'', [CHR 0x01, CHR 0x02]),
                \<lparr>base_topic = ''nuki/hub'', response = PyNone, waiting_for_topic = None,
                 ip_address = Some ''192.168.1.50'',
                 calls = [Subscribe ''nuki/hub/info/nukiHubIp'', Unsubscribe ''nuki/hub/info/nukiHubIp'']\<rparr>) \<and>
          last out = ''Coredump saved to coredump.hex'') \<and>
   (\<exists>out. fetch_coredump (\<lambda>s. None) (\<lambda>u a. HTTPError 500 ''Internal Server Error'') (\<lambda>f d. None)
            [\<lparr>clock = 0, delivered = [\<lparr>topic = ''nuki/hub/info/nukiHubIp'', payload = ''192.168.1.50''\<rparr>]\<rparr>]
            (NukiConfigClient ''nuki/hub'') None None ''coredump.hex'' =
          Some (out, None,
                \<lparr>base_topic = ''nuki/hub'', response = PyNone, waiting_for_topic = None,
                 ip_address = Some ''192.168.1.50'',
                 calls = [Subscribe ''nuki/hub/info/nukiHubIp'', Unsubscribe ''nuki/hub/info/nukiHubIp'']\<rparr>) \<and>
          last out = ''HTTP Error: 500 Internal Server Error'')"
proof -
  let ?env = "[\<lparr>clock = 0, delivered = [\<lparr>topic = ''nuki/hub/info/nukiHubIp'', payload = ''192.168.1.50''\<rparr>]\<rparr>]"
  let ?c1 = "\<lparr>base_topic = ''nuki/hub'', response = PyNone, waiting_for_topic = None,
                 ip_address = Some ''192.168.1.50'',
                 calls = [Subscribe ''nuki/hub/info/nukiHubIp'', Unsubscribe ''nuki/hub/info/nukiHubIp'']\<rparr>"
  have ip: "wait_for_ip (\<lambda>s. None) 10 ?env (NukiConfigClient ''nuki/hub'') =
              Some (Some ''192.168.1.50'', ?c1)"
    by (simp add: wait_for_ip_def NukiConfigClient_def on_message_def endswith_def Let_def)
  have ne: "''192.168.1.50'' \<noteq> []" by simp
  show ?thesis
    using fetch_coredump_classification [OF ip ne,
        where http_get = "\<lambda>u a. Body [CHR 0x01, CHR 0x02]" and write_file = "\<lambda>f d. None"
          and data = "[CHR 0x01, CHR 0x02]" and output_file = "''coredump.hex''"
          and web_user = None and web_password = None]
      fetch_coredump_classification [OF ip ne,
        where http_get = "\<lambda>u a. HTTPError 500 ''Internal Server Error''" and write_file = "\<lambda>f d. None"
          and code = 500 and reason = "''Internal Server Error''" and output_file = "''coredump.hex''"
          and web_user = None and web_password = None]
    by (simp add: str_int_500)
qed

subsection \<open>The coercion of a value\<close>
























end
